theory Spec2Isabelle
  imports Complex_Main
begin

section \<open>JavaScript values as the driver uses them\<close>

text \<open>
  The driver is \<^verbatim>\<open>src/JDBCDriver.js\<close>. A string-valued JavaScript value is a
  \<open>string option\<close>, \<open>None\<close> being \<^verbatim>\<open>undefined\<close>. An object literal's
  property may be left out altogether, which the spread of line 34 tells apart from a
  property that is present and \<^verbatim>\<open>undefined\<close>: \<open>Absent\<close> and \<open>Present None\<close>.
\<close>

datatype 'a entry = Absent | Present 'a

type_synonym jsstr = "string option"

definition truthy :: "jsstr \<Rightarrow> bool" where
  "truthy v = (case v of None \<Rightarrow> False | Some s \<Rightarrow> s \<noteq> [])"

text \<open>\<^verbatim>\<open>a || b\<close> on such values.\<close>

definition js_or :: "jsstr \<Rightarrow> jsstr \<Rightarrow> jsstr" where
  "js_or a b = (if truthy a then a else b)"

text \<open>Reading \<^verbatim>\<open>o.p\<close>: a property that is left out reads as \<^verbatim>\<open>undefined\<close>.\<close>

definition read_entry :: "'a option entry \<Rightarrow> 'a option" where
  "read_entry p = (case p of Absent \<Rightarrow> None | Present v \<Rightarrow> v)"

text \<open>\<^verbatim>\<open>{p: d, ...o}\<close>: the spread overrides \<open>d\<close> exactly when \<open>o\<close> has the property.\<close>

definition spread :: "'a entry \<Rightarrow> 'a \<Rightarrow> 'a" where
  "spread p d = (case p of Absent \<Rightarrow> d | Present v \<Rightarrow> v)"

subsection \<open>Exceptions\<close>

text \<open>
  What a call of a method on a JavaScript value gives: the value has no such function
  (the call throws a TypeError), or the call returns.
\<close>

datatype 'a call_result = NotAFunction | Returned 'a

text \<open>
  The value at \<^verbatim>\<open>ex.cause\<close>. With the native layer it is a Java throwable:
  \<^verbatim>\<open>getMessage()\<close> returns a string or \<^verbatim>\<open>null\<close> (\<open>None\<close>) and the
  throwable may have a cause of its own. Any other value can stand there as well, and
  need not have a \<^verbatim>\<open>getMessage\<close> function.
\<close>

datatype throwable =
  Throwable (getMessage: "string option call_result") (getCause: "throwable option")

text \<open>The last throwable of the chain of causes.\<close>

primrec root_cause :: "throwable \<Rightarrow> throwable" where
  "root_cause (Throwable m c) =
     (case map_option root_cause c of None \<Rightarrow> Throwable m c | Some r \<Rightarrow> r)"

text \<open>
  A thrown value has a kind, a message and, when it carries one, a \<^verbatim>\<open>cause\<close>
  (\<open>None\<close>: the property is \<^verbatim>\<open>undefined\<close> or another falsy value).
\<close>

datatype exn_kind = JsError | JsTypeError | PoolTimeout

datatype exn = Exn (kind: exn_kind) (message: string) (cause: "throwable option")

text \<open>\<^verbatim>\<open>new Error(msg)\<close>; a message that is \<^verbatim>\<open>null\<close> is converted to a string.\<close>

definition new_Error :: "string \<Rightarrow> exn" where
  "new_Error msg = Exn JsError msg None"

definition to_message :: "string option \<Rightarrow> string" where
  "to_message m = (case m of None \<Rightarrow> ''null'' | Some t \<Rightarrow> t)"

section \<open>Configuration (constructor, lines 21 to 73)\<close>

text \<open>
  What \<^verbatim>\<open>SupportedDrivers[dbType]\<close> yields when it is not \<^verbatim>\<open>undefined\<close>, seen
  through the four members the driver reads. The module \<^verbatim>\<open>./supported-drivers\<close> is
  not part of the sources, so the catalog is a parameter of the model. \<open>jdbcUrl\<close> is
  the value that the call \<^verbatim>\<open>jdbcUrl()\<close> returns, and \<open>jdbcUrl_throws\<close> is what the
  call throws instead when it does not return. The lookup also finds what an object
  inherits (\<^verbatim>\<open>constructor\<close>, \<^verbatim>\<open>toString\<close>): such a value is truthy, has none
  of the four members, and calling its \<^verbatim>\<open>jdbcUrl\<close> throws a TypeError.
\<close>

record descriptor =
  driverClass :: jsstr
  jdbcUrl :: jsstr
  jdbcUrl_throws :: "exn option"
  desc_properties :: "(string \<times> string) list option"
  desc_prepareConnectionQueries :: "string list option"

type_synonym catalog = "string \<Rightarrow> descriptor option"

text \<open>
  Lines 204 to 206: \<^verbatim>\<open>SupportedDrivers[dbType]\<close>. A key that is \<^verbatim>\<open>undefined\<close>
  is looked up as the string \<^verbatim>\<open>"undefined"\<close>.
\<close>

definition dbTypeDescription :: "catalog \<Rightarrow> jsstr \<Rightarrow> descriptor option" where
  "dbTypeDescription SupportedDrivers key =
     SupportedDrivers (case key of None \<Rightarrow> ''undefined'' | Some k \<Rightarrow> k)"

text \<open>The variables of \<^verbatim>\<open>process.env\<close> the constructor reads.\<close>

record process_env =
  CUBEJS_DB_TYPE :: jsstr
  CUBEJS_JDBC_URL :: jsstr
  CUBEJS_JDBC_DRIVER :: jsstr
  CUBEJS_DB_MAX_POOL :: jsstr

text \<open>\<^verbatim>\<open>config.poolOptions\<close> and the options handed to \<^verbatim>\<open>createPool\<close>.\<close>

record pool_overrides =
  with_min :: "int entry"
  with_max :: "int entry"
  with_evictionRunIntervalMillis :: "int entry"
  with_softIdleTimeoutMillis :: "int entry"
  with_idleTimeoutMillis :: "int entry"
  with_testOnBorrow :: "bool entry"
  with_acquireTimeoutMillis :: "int entry"

record pool_options =
  min_pool :: int
  max_pool :: int
  evictionRunIntervalMillis :: int
  softIdleTimeoutMillis :: int
  idleTimeoutMillis :: int
  testOnBorrow :: bool
  acquireTimeoutMillis :: int

text \<open>The constructor's argument: \<^verbatim>\<open>poolOptions\<close> and the remaining \<^verbatim>\<open>dbOptions\<close>.\<close>

record driver_config =
  in_dbType :: "jsstr entry"
  in_url :: "jsstr entry"
  in_drivername :: "jsstr entry"
  in_properties :: "(string \<times> string) list option entry"
  in_customClassPath :: "jsstr entry"
  in_prepareConnectionQueries :: "string list option entry"
  poolOptions :: pool_overrides

text \<open>
  \<^verbatim>\<open>this.config\<close> as lines 29 to 35 build it, once the call of \<^verbatim>\<open>jdbcUrl()\<close>
  in line 31 has returned (\<open>constructor\<close> below has the case that it throws).
\<close>

record config =
  dbType :: jsstr
  url :: jsstr
  drivername :: jsstr
  properties :: "(string \<times> string) list option"
  customClassPath :: jsstr
  cfg_prepareConnectionQueries :: "string list option"

record driver =
  config :: config
  pool :: pool_options

definition merged_config :: "catalog \<Rightarrow> process_env \<Rightarrow> driver_config \<Rightarrow> config" where
  "merged_config SupportedDrivers env cfg =
     (let description =
            dbTypeDescription SupportedDrivers (js_or (read_entry (in_dbType cfg)) (CUBEJS_DB_TYPE env))
      in \<lparr> dbType = spread (in_dbType cfg) (CUBEJS_DB_TYPE env),
           url = spread (in_url cfg)
                   (js_or (CUBEJS_JDBC_URL env) (Option.bind description jdbcUrl)),
           drivername = spread (in_drivername cfg)
                   (js_or (CUBEJS_JDBC_DRIVER env) (Option.bind description driverClass)),
           properties = spread (in_properties cfg) (Option.bind description desc_properties),
           customClassPath = spread (in_customClassPath cfg) None,
           cfg_prepareConnectionQueries = spread (in_prepareConnectionQueries cfg) None \<rparr>)"

text \<open>
  Line 65: \<^verbatim>\<open>process.env.CUBEJS_DB_MAX_POOL && parseInt(..., 10) || 8\<close>. The builtin
  \<^verbatim>\<open>parseInt\<close> is a parameter; \<open>None\<close> is \<^verbatim>\<open>NaN\<close>.
\<close>

definition default_max :: "(string \<Rightarrow> int option) \<Rightarrow> process_env \<Rightarrow> int" where
  "default_max parseInt env =
     (case CUBEJS_DB_MAX_POOL env of
        None \<Rightarrow> 8
      | Some v \<Rightarrow>
          if v = [] then 8
          else (case parseInt v of None \<Rightarrow> 8 | Some n \<Rightarrow> if n = 0 then 8 else n))"

definition createPool_options ::
  "(string \<Rightarrow> int option) \<Rightarrow> process_env \<Rightarrow> pool_overrides \<Rightarrow> pool_options" where
  "createPool_options parseInt env po =
     \<lparr> min_pool = spread (with_min po) 0,
       max_pool = spread (with_max po) (default_max parseInt env),
       evictionRunIntervalMillis = spread (with_evictionRunIntervalMillis po) 10000,
       softIdleTimeoutMillis = spread (with_softIdleTimeoutMillis po) 30000,
       idleTimeoutMillis = spread (with_idleTimeoutMillis po) 30000,
       testOnBorrow = spread (with_testOnBorrow po) True,
       acquireTimeoutMillis = spread (with_acquireTimeoutMillis po) 20000 \<rparr>"

text \<open>
  What the evaluation of line 31 throws, if it throws:
  \<^verbatim>\<open>process.env.CUBEJS_JDBC_URL || dbTypeDescription && dbTypeDescription.jdbcUrl()\<close>
  calls \<^verbatim>\<open>jdbcUrl\<close> when the variable is not set and the lookup of line 26 found a
  value, whether or not the caller supplies a url.
\<close>

definition line_31_throws :: "catalog \<Rightarrow> process_env \<Rightarrow> driver_config \<Rightarrow> exn option" where
  "line_31_throws SupportedDrivers env cfg =
     (if truthy (CUBEJS_JDBC_URL env) then None
      else Option.bind
             (dbTypeDescription SupportedDrivers
                (js_or (read_entry (in_dbType cfg)) (CUBEJS_DB_TYPE env)))
             jdbcUrl_throws)"

text \<open>
  The constructor: the object literal of lines 29 to 35, the two checks of lines 37 to
  43, then the pool.
\<close>

definition constructor ::
  "catalog \<Rightarrow> (string \<Rightarrow> int option) \<Rightarrow> process_env \<Rightarrow> driver_config \<Rightarrow> exn + driver" where
  "constructor SupportedDrivers parseInt env cfg =
     (case line_31_throws SupportedDrivers env cfg of
        Some e \<Rightarrow> Inl e
      | None \<Rightarrow>
          (let c = merged_config SupportedDrivers env cfg in
           if \<not> truthy (drivername c) then Inl (new_Error ''drivername is required property'')
           else if \<not> truthy (url c) then Inl (new_Error ''url is required property'')
           else Inr \<lparr> config = c, pool = createPool_options parseInt env (poolOptions cfg) \<rparr>))"

text \<open>Lines 107 to 112.\<close>

definition prepareConnectionQueries :: "catalog \<Rightarrow> driver \<Rightarrow> string list" where
  "prepareConnectionQueries SupportedDrivers drv =
     (case cfg_prepareConnectionQueries (config drv) of
        Some qs \<Rightarrow> qs
      | None \<Rightarrow>
          (case Option.bind (dbTypeDescription SupportedDrivers (dbType (config drv)))
                  desc_prepareConnectionQueries of
             Some qs \<Rightarrow> qs
           | None \<Rightarrow> []))"

section \<open>The native layer and the driver's mutable state\<close>

text \<open>
  Connections and statements are opaque handles of the native layer. Every call that
  crosses into it is recorded in a trace, newest event first. The native layer is a
  parameter: each of its operations answers from the trace so far, so that the model
  covers every behaviour, including one that changes from call to call.
\<close>

type_synonym conn = nat

type_synonym stmt = nat

type_synonym row = "(string \<times> string) list"

text \<open>
  A native result set; \<open>toObjArray\<close> is what its \<^verbatim>\<open>toObjArray\<close> method yields
  through the callback, \<open>None\<close> when the object has no such method (line 176).
\<close>

datatype result_set = ResultSet (rs_id: nat) (toObjArray: "(exn + row list) option")

datatype result = Rows "row list" | Raw result_set

text \<open>
  The events: the calls into the native layer, and the two calls of the pool that
  \<open>queryPromised\<close> awaits (\<open>PoolAcquire c\<close>: \<^verbatim>\<open>pool.acquire()\<close> is resolved with
  \<open>c\<close>; \<open>PoolRelease c\<close>: \<^verbatim>\<open>pool.release(c)\<close>). \<open>GetConnection\<close> and
  \<open>CreateStatement\<close> record the handle returned, \<open>None\<close> when the call threw.
\<close>

datatype event =
    AddToClasspath
  | GetConnection jsstr "conn option"
  | Close conn
  | IsValid conn real
  | CreateStatement conn "stmt option"
  | SetQueryTimeout stmt nat
  | ExecuteQuery stmt string
  | Cancel stmt
  | PoolAcquire conn
  | PoolRelease conn

record host =
  Java_addToClasspath :: "event list \<Rightarrow> exn option"
  DriverManager_getConnection ::
    "event list \<Rightarrow> jsstr \<Rightarrow> (string \<rightharpoonup> string) \<Rightarrow> exn + conn"
  connection_close :: "event list \<Rightarrow> conn \<Rightarrow> exn option"
  connection_isValid :: "event list \<Rightarrow> conn \<Rightarrow> real \<Rightarrow> exn + bool"
  connection_createStatement :: "event list \<Rightarrow> conn \<Rightarrow> exn + stmt"
  statement_setQueryTimeout :: "event list \<Rightarrow> stmt \<Rightarrow> nat \<Rightarrow> exn option"
  statement_executeQuery :: "event list \<Rightarrow> stmt \<Rightarrow> string \<Rightarrow> exn + result_set"
  statement_cancel :: "event list \<Rightarrow> stmt \<Rightarrow> exn option"
  testConnectionTimeout :: "exn + real"

text \<open>
  The state: the trace, the pool's idle and borrowed connections, \<^verbatim>\<open>this.jdbcProps\<close>,
  and the store of the \<^verbatim>\<open>cancelObj\<close> objects of line 120 (an address holds the
  statement its \<^verbatim>\<open>cancel\<close> property is bound to, \<open>None\<close> while it has none).
\<close>

record state =
  trace :: "event list"
  idle :: "conn list"
  borrowed :: "conn list"
  jdbcProps :: "(string \<rightharpoonup> string) option"
  cancelObjs :: "nat \<Rightarrow> stmt option"
  next_obj :: nat

definition emit :: "event \<Rightarrow> state \<Rightarrow> state" where
  "emit e s = s\<lparr>trace := e # trace s\<rparr>"

text \<open>The state of a driver that was just constructed.\<close>

definition fresh_state :: state where
  "fresh_state = \<lparr> trace = [], idle = [], borrowed = [], jdbcProps = None,
                    cancelObjs = (\<lambda>_. None), next_obj = 0 \<rparr>"

section \<open>The pool's lifecycle hooks (lines 47 to 62)\<close>

text \<open>
  Lines 86 to 94. \<^verbatim>\<open>Object.entries\<close> of \<^verbatim>\<open>undefined\<close> throws a TypeError;
  \<^verbatim>\<open>java.util.Properties\<close> is a map.
\<close>

definition getJdbcProperties :: "driver \<Rightarrow> exn + (string \<rightharpoonup> string)" where
  "getJdbcProperties drv =
     (case properties (config drv) of
        None \<Rightarrow> Inl (Exn JsTypeError ''Cannot convert undefined or null to object'' None)
      | Some entries \<Rightarrow> Inr (foldl (\<lambda>ps (name, v). ps(name \<mapsto> v)) Map.empty entries))"

text \<open>
  \<^verbatim>\<open>create\<close>, lines 47 to 54. \<^verbatim>\<open>initClassPath\<close> is \<^verbatim>\<open>Java.addToClasspath\<close>
  (its argument is the promise that the async \<^verbatim>\<open>getCustomClassPath\<close> returns).
\<close>

definition create :: "host \<Rightarrow> driver \<Rightarrow> state \<Rightarrow> (exn + conn) \<times> state" where
  "create h drv s =
     (let s1 = emit AddToClasspath s in
      case Java_addToClasspath h (trace s) of
        Some e \<Rightarrow> (Inl e, s1)
      | None \<Rightarrow>
          (case (case jdbcProps s1 of
                   Some ps \<Rightarrow> Inr (ps, s1)
                 | None \<Rightarrow>
                     (case getJdbcProperties drv of
                        Inl e \<Rightarrow> Inl e
                      | Inr ps \<Rightarrow> Inr (ps, s1\<lparr>jdbcProps := Some ps\<rparr>))) of
             Inl e \<Rightarrow> (Inl e, s1)
           | Inr (ps, s2) \<Rightarrow>
               (case DriverManager_getConnection h (trace s2) (url (config drv)) ps of
                  Inl e \<Rightarrow> (Inl e, emit (GetConnection (url (config drv)) None) s2)
                | Inr c \<Rightarrow> (Inr c, emit (GetConnection (url (config drv)) (Some c)) s2))))"

text \<open>\<^verbatim>\<open>destroy\<close>, line 55.\<close>

definition destroy :: "host \<Rightarrow> conn \<Rightarrow> state \<Rightarrow> exn option \<times> state" where
  "destroy h connection s = (connection_close h (trace s) connection, emit (Close connection) s)"

text \<open>
  \<^verbatim>\<open>validate\<close>, lines 56 to 62: the \<^verbatim>\<open>try\<close> covers both the call of
  \<^verbatim>\<open>this.testConnectionTimeout()\<close> and the probe. The quotient is taken in the reals;
  the rounding of JavaScript's doubles is not modelled.
\<close>

definition validate :: "host \<Rightarrow> driver \<Rightarrow> conn \<Rightarrow> state \<Rightarrow> (exn + bool) \<times> state" where
  "validate h drv connection s =
     (case testConnectionTimeout h of
        Inl e \<Rightarrow> (Inr False, s)
      | Inr t \<Rightarrow>
          (case connection_isValid h (trace s) connection (t / 1000) of
             Inl e \<Rightarrow> (Inr False, emit (IsValid connection (t / 1000)) s)
           | Inr b \<Rightarrow> (Inr b, emit (IsValid connection (t / 1000)) s)))"

section \<open>The connection pool\<close>

text \<open>
  Modelled from the spec: the pool is the library \<^verbatim>\<open>generic-pool\<close>, which is not part
  of the sources. The model is the pool serving one request at a time, as sections 4.1
  and 8 of the specification describe it: connections are handed out from the idle ones,
  oldest first; with \<^verbatim>\<open>testOnBorrow\<close> every connection is validated before it is
  handed out, a connection that \<^verbatim>\<open>create\<close> has just returned included, and one that
  fails is destroyed (a failure of \<^verbatim>\<open>destroy\<close> is swallowed); with no idle connection
  a new one is created while the pool holds fewer than \<^verbatim>\<open>max\<close>, which the library
  raises to 1 when it is smaller; when every permitted connection is in use the request
  waits, and fails after \<^verbatim>\<open>acquireTimeoutMillis\<close> (no other task returns a connection
  in this sequential model). After a failure of \<^verbatim>\<open>create\<close> the library does not fail
  the request (section 7 of the specification says it does): it calls \<^verbatim>\<open>create\<close>
  again. One round of the pool's work for the waiting request either settles the
  request, or changes the pool and calls for another round, or leaves the request
  waiting for good.
\<close>

datatype pool_step = Dispatch "exn + conn" state | Again state | Wait

definition dispense_step :: "host \<Rightarrow> driver \<Rightarrow> state \<Rightarrow> pool_step" where
  "dispense_step h drv s =
     (case idle s of
        [] \<Rightarrow>
          if int (length (idle s) + length (borrowed s)) < max (max_pool (pool drv)) 1 then
            (case create h drv s of
               (Inl e, s1) \<Rightarrow> Again s1
             | (Inr c, s1) \<Rightarrow> Again (s1\<lparr>idle := idle s1 @ [c]\<rparr>))
          else if 0 < acquireTimeoutMillis (pool drv)
          then Dispatch (Inl (Exn PoolTimeout ''ResourceRequest timed out'' None)) s
          else Wait
      | c # rest \<Rightarrow>
          if testOnBorrow (pool drv) then
            (case validate h drv c (s\<lparr>idle := rest\<rparr>) of
               (Inl e, s1) \<Rightarrow> Dispatch (Inl e) s1
             | (Inr False, s1) \<Rightarrow> Again (snd (destroy h c s1))
             | (Inr True, s1) \<Rightarrow>
                 Dispatch (Inr c) (emit (PoolAcquire c) (s1\<lparr>borrowed := c # borrowed s1\<rparr>)))
          else Dispatch (Inr c)
                 (emit (PoolAcquire c) (s\<lparr>idle := rest, borrowed := c # borrowed s\<rparr>)))"

text \<open>
  Modelled from the spec: the rounds of the pool until the request is settled. The
  rounds need not end (a \<^verbatim>\<open>create\<close> that fails every time, a connection that is
  never valid): \<open>None\<close> is a request that is never settled.
\<close>

partial_function (option) dispense ::
  "host \<Rightarrow> driver \<Rightarrow> state \<Rightarrow> ((exn + conn) \<times> state) option" where
  "dispense h drv s =
     (case dispense_step h drv s of
        Dispatch r s1 \<Rightarrow> Some (r, s1)
      | Again s1 \<Rightarrow> dispense h drv s1
      | Wait \<Rightarrow> None)"

declare dispense.simps [code]

text \<open>Modelled from the spec: \<^verbatim>\<open>pool.acquire()\<close> of \<^verbatim>\<open>generic-pool\<close>.\<close>

definition acquire :: "host \<Rightarrow> driver \<Rightarrow> state \<Rightarrow> ((exn + conn) \<times> state) option" where
  "acquire h drv s = dispense h drv s"

text \<open>
  Modelled from the spec: \<^verbatim>\<open>pool.release(conn)\<close> of \<^verbatim>\<open>generic-pool\<close>; the
  connection becomes the last of the idle ones.
\<close>

definition release :: "conn \<Rightarrow> state \<Rightarrow> state" where
  "release c s = emit (PoolRelease c) (s\<lparr>idle := idle s @ [c], borrowed := remove1 c (borrowed s)\<rparr>)"


section \<open>The query executor (lines 143 to 180)\<close>

text \<open>
  \<^verbatim>\<open>executeStatement\<close>, lines 168 to 180. The third argument is the address of a
  \<^verbatim>\<open>cancelObj\<close>, or \<open>None\<close> when the caller passes none; line 171 stores the
  statement's promisified \<^verbatim>\<open>cancel\<close> in it. The result is the rows that
  \<^verbatim>\<open>toObjArray\<close> yields, or the native result set itself when it has no such method.
\<close>

definition executeStatement ::
  "host \<Rightarrow> conn \<Rightarrow> string \<Rightarrow> nat option \<Rightarrow> state \<Rightarrow> (exn + result) \<times> state" where
  "executeStatement h connection query cancelObj s =
     (case connection_createStatement h (trace s) connection of
        Inl e \<Rightarrow> (Inl e, emit (CreateStatement connection None) s)
      | Inr statement \<Rightarrow>
          (let s1 = emit (CreateStatement connection (Some statement)) s;
               s2 = (case cancelObj of
                       None \<Rightarrow> s1
                     | Some a \<Rightarrow> s1\<lparr>cancelObjs := (cancelObjs s1)(a := Some statement)\<rparr>);
               s3 = emit (SetQueryTimeout statement 600) s2
           in case statement_setQueryTimeout h (trace s2) statement 600 of
                Some e \<Rightarrow> (Inl e, s3)
              | None \<Rightarrow>
                  (let s4 = emit (ExecuteQuery statement query) s3
                   in case statement_executeQuery h (trace s3) statement query of
                        Inl e \<Rightarrow> (Inl e, s4)
                      | Inr resultSet \<Rightarrow>
                          (case toObjArray resultSet of
                             None \<Rightarrow> (Inr (Raw resultSet), s4)
                           | Some (Inl e) \<Rightarrow> (Inl e, s4)
                           | Some (Inr rows) \<Rightarrow> (Inr (Rows rows), s4)))))"

text \<open>The loop of lines 149 to 151: the first statement that throws ends it.\<close>

fun run_prepare :: "host \<Rightarrow> conn \<Rightarrow> string list \<Rightarrow> state \<Rightarrow> (exn + unit) \<times> state" where
  "run_prepare h connection [] s = (Inr (), s)"
| "run_prepare h connection (q # qs) s =
     (case executeStatement h connection q None s of
        (Inl e, s1) \<Rightarrow> (Inl e, s1)
      | (Inr _, s1) \<Rightarrow> run_prepare h connection qs s1)"

text \<open>
  The values \<^verbatim>\<open>queryPromised\<close> receives as \<^verbatim>\<open>options\<close>: \<^verbatim>\<open>undefined\<close>, an
  array of strings, or an object with or without a \<^verbatim>\<open>prepareConnectionQueries\<close>
  property. \<open>options_prepareConnectionQueries\<close> is lines 144 and 148: an array is
  truthy and has no property of that name.
\<close>

datatype options = Undefined | ArrayValue "string list" | ObjectValue "string list option"

definition options_prepareConnectionQueries :: "options \<Rightarrow> string list" where
  "options_prepareConnectionQueries opts =
     (case (case opts of Undefined \<Rightarrow> ObjectValue None | v \<Rightarrow> v) of
        ObjectValue (Some qs) \<Rightarrow> qs
      | _ \<Rightarrow> [])"

text \<open>The body of the inner \<^verbatim>\<open>try\<close>, lines 148 to 152.\<close>

definition run_statements ::
  "host \<Rightarrow> conn \<Rightarrow> string list \<Rightarrow> string \<Rightarrow> nat option \<Rightarrow> state \<Rightarrow> (exn + result) \<times> state" where
  "run_statements h connection prepare query cancelObj s =
     (case run_prepare h connection prepare s of
        (Inl e, s1) \<Rightarrow> (Inl e, s1)
      | (Inr _, s1) \<Rightarrow> executeStatement h connection query cancelObj s1)"

text \<open>
  The \<^verbatim>\<open>catch\<close> of lines 156 to 162: what it throws for the caught \<open>ex\<close>. With a
  cause, line 158 calls \<^verbatim>\<open>ex.cause.getMessage()\<close>; the call throws a TypeError
  when the cause has no such function.
\<close>

definition rethrow :: "exn \<Rightarrow> exn" where
  "rethrow ex =
     (case cause ex of
        None \<Rightarrow> ex
      | Some c \<Rightarrow>
          (case getMessage c of
             NotAFunction \<Rightarrow> Exn JsTypeError ''ex.cause.getMessage is not a function'' None
           | Returned m \<Rightarrow> new_Error (to_message m)))"

text \<open>
  \<^verbatim>\<open>queryPromised\<close>, lines 143 to 163; the \<^verbatim>\<open>finally\<close> releases on both paths.
  \<open>None\<close>: the promise of \<^verbatim>\<open>pool.acquire()\<close> is never settled, and neither is
  the one of \<^verbatim>\<open>queryPromised\<close>.
\<close>

definition queryPromised ::
  "host \<Rightarrow> driver \<Rightarrow> string \<Rightarrow> nat option \<Rightarrow> options \<Rightarrow> state
     \<Rightarrow> ((exn + result) \<times> state) option" where
  "queryPromised h drv query cancelObj opts s =
     (case acquire h drv s of
        None \<Rightarrow> None
      | Some (Inl ex, s1) \<Rightarrow> Some (Inl (rethrow ex), s1)
      | Some (Inr connection, s1) \<Rightarrow>
          (case run_statements h connection (options_prepareConnectionQueries opts)
                  query cancelObj s1 of
             (Inl ex, s2) \<Rightarrow> Some (Inl (rethrow ex), release connection s2)
           | (Inr v, s2) \<Rightarrow> Some (Inr v, release connection s2)))"

section \<open>The facade (lines 100 to 125)\<close>

text \<open>
  A promise: how it is settled (\<open>None\<close> when it never is), and its own
  \<^verbatim>\<open>cancel\<close> property when it has one. The property holds the arrow function of line
  123, which closes over one \<^verbatim>\<open>cancelObj\<close>: it is represented by that object's
  address.
\<close>

record 'a promise =
  settled :: "(exn + 'a) option"
  cancel_prop :: "nat option"

text \<open>
  What a call of an \<^verbatim>\<open>async\<close> function hands to its caller when the body returns
  the promise \<open>p\<close>: a promise of the call's own, which settles as \<open>p\<close> does. It is
  another object than \<open>p\<close> and has none of the properties the body set on \<open>p\<close>.
\<close>

definition async_return :: "'a promise \<Rightarrow> 'a promise" where
  "async_return p = \<lparr> settled = settled p, cancel_prop = None \<rparr>"

text \<open>
  Calling the arrow function of line 123 whose \<^verbatim>\<open>cancelObj\<close> is at address \<open>a\<close>:
  \<^verbatim>\<open>cancelObj.cancel && cancelObj.cancel() || Promise.reject(...)\<close>. The promisified
  \<^verbatim>\<open>cancel\<close> returns a promise, which is truthy.
\<close>

definition promise_cancel :: "host \<Rightarrow> nat \<Rightarrow> state \<Rightarrow> (exn + unit) \<times> state" where
  "promise_cancel h a s =
     (case cancelObjs s a of
        None \<Rightarrow> (Inl (new_Error ''Statement is not ready''), s)
      | Some statement \<Rightarrow>
          ((case statement_cancel h (trace s) statement of Some e \<Rightarrow> Inl e | None \<Rightarrow> Inr ()),
           emit (Cancel statement) s))"

text \<open>
  Line 15; \<^verbatim>\<open>SqlString.format\<close> is a parameter, a pure function.
\<close>

definition applyParams :: "(string \<Rightarrow> 'v list \<Rightarrow> string) \<Rightarrow> string \<Rightarrow> 'v list \<Rightarrow> string" where
  "applyParams format query params = format query params"

text \<open>Line 120, \<^verbatim>\<open>const cancelObj = {}\<close>: a new object, at the address \<open>next_obj s\<close>.\<close>

definition new_cancelObj :: "state \<Rightarrow> state" where
  "new_cancelObj s =
     s\<lparr>cancelObjs := (cancelObjs s)(next_obj s := None), next_obj := Suc (next_obj s)\<rparr>"

text \<open>
  The promise that line 121 binds and lines 122 to 123 extend, with the state once it
  has settled (\<open>None\<close> when it never does).
\<close>

definition query_inner ::
  "(string \<Rightarrow> 'v list \<Rightarrow> string) \<Rightarrow> catalog \<Rightarrow> host \<Rightarrow> driver \<Rightarrow> string \<Rightarrow> 'v list \<Rightarrow> state
     \<Rightarrow> result promise \<times> state option" where
  "query_inner format SupportedDrivers h drv query vals s =
     (let queryWithParams = applyParams format query vals;
          a = next_obj s;
          r = queryPromised h drv queryWithParams (Some a)
                (ArrayValue (prepareConnectionQueries SupportedDrivers drv))
                (new_cancelObj s)
      in (\<lparr> settled = map_option fst r, cancel_prop = Some a \<rparr>, map_option snd r))"

text \<open>\<^verbatim>\<open>async query(query, values)\<close>, lines 118 to 125.\<close>

definition query ::
  "(string \<Rightarrow> 'v list \<Rightarrow> string) \<Rightarrow> catalog \<Rightarrow> host \<Rightarrow> driver \<Rightarrow> string \<Rightarrow> 'v list \<Rightarrow> state
     \<Rightarrow> result promise \<times> state option" where
  "query format SupportedDrivers h drv q vals s =
     (case query_inner format SupportedDrivers h drv q vals s of
        (p, s1) \<Rightarrow> (async_return p, s1))"

text \<open>\<^verbatim>\<open>testConnection\<close>, lines 100 to 102.\<close>

definition testConnection ::
  "(string \<Rightarrow> 'v list \<Rightarrow> string) \<Rightarrow> catalog \<Rightarrow> host \<Rightarrow> driver \<Rightarrow> state
     \<Rightarrow> result promise \<times> state option" where
  "testConnection format SupportedDrivers h drv s =
     query format SupportedDrivers h drv ''SELECT 1'' [] s"

section \<open>Observations on traces\<close>

text \<open>
  The trace is newest first. \<open>exec_ok e evs\<close>: if \<open>e\<close> is a call of
  \<^verbatim>\<open>executeQuery\<close> on a statement, then the two calls just before it set the timeout of
  600 seconds on that statement and created it.
\<close>

definition exec_ok :: "event \<Rightarrow> event list \<Rightarrow> bool" where
  "exec_ok e evs =
     (case e of
        ExecuteQuery st q \<Rightarrow>
          (case evs of
             e1 # e2 # _ \<Rightarrow>
               e1 = SetQueryTimeout st 600 \<and>
               (case e2 of CreateStatement c created \<Rightarrow> created = Some st | _ \<Rightarrow> False)
           | _ \<Rightarrow> False)
      | _ \<Rightarrow> True)"

primrec guarded :: "event list \<Rightarrow> bool" where
  "guarded [] = True"
| "guarded (e # evs) = (exec_ok e evs \<and> guarded evs)"

text \<open>The queries passed to \<^verbatim>\<open>executeQuery\<close>, in the order of the calls.\<close>

primrec executed :: "event list \<Rightarrow> string list" where
  "executed [] = []"
| "executed (e # evs) =
     (case e of ExecuteQuery st q \<Rightarrow> executed evs @ [q] | _ \<Rightarrow> executed evs)"

text \<open>The number of physical connections that \<^verbatim>\<open>DriverManager.getConnection\<close> opened.\<close>

primrec opened :: "event list \<Rightarrow> nat" where
  "opened [] = 0"
| "opened (e # evs) =
     (case e of GetConnection u (Some c) \<Rightarrow> Suc (opened evs) | _ \<Rightarrow> opened evs)"

text \<open>The number of connections the pool has destroyed (calls of \<^verbatim>\<open>close\<close>).\<close>

primrec closed :: "event list \<Rightarrow> nat" where
  "closed [] = 0"
| "closed (e # evs) = (case e of Close c \<Rightarrow> Suc (closed evs) | _ \<Rightarrow> closed evs)"

text \<open>The number of calls of the native \<^verbatim>\<open>cancel\<close> on a statement.\<close>

primrec cancels :: "stmt \<Rightarrow> event list \<Rightarrow> nat" where
  "cancels st [] = 0"
| "cancels st (e # evs) =
     (case e of
        Cancel st' \<Rightarrow> (if st' = st then Suc (cancels st evs) else cancels st evs)
      | _ \<Rightarrow> cancels st evs)"




section \<open>Concrete inputs\<close>

text \<open>
  The inputs at which the theorems below are instantiated: a catalog with no entry, an
  empty environment, the configuration of the specification's end-to-end scenario, and
  a native layer that answers every call.
\<close>

definition no_catalog :: catalog where
  "no_catalog = (\<lambda>_. None)"

definition no_env :: process_env where
  "no_env = \<lparr> CUBEJS_DB_TYPE = None, CUBEJS_JDBC_URL = None, CUBEJS_JDBC_DRIVER = None,
              CUBEJS_DB_MAX_POOL = None \<rparr>"

definition no_overrides :: pool_overrides where
  "no_overrides = \<lparr> with_min = Absent, with_max = Absent,
       with_evictionRunIntervalMillis = Absent, with_softIdleTimeoutMillis = Absent,
       with_idleTimeoutMillis = Absent, with_testOnBorrow = Absent,
       with_acquireTimeoutMillis = Absent \<rparr>"

definition generic_config :: driver_config where
  "generic_config = \<lparr> in_dbType = Present (Some ''generic''),
       in_url = Present (Some ''db://host''), in_drivername = Present (Some ''x.Driver''),
       in_properties = Absent, in_customClassPath = Absent,
       in_prepareConnectionQueries = Absent, poolOptions = no_overrides \<rparr>"

text \<open>A driver as the constructor builds it, with a pool of one connection.\<close>

definition single_driver :: driver where
  "single_driver =
     \<lparr> config = \<lparr> dbType = Some ''generic'', url = Some ''db://host'',
                  drivername = Some ''x.Driver'', properties = Some [(''user'', ''cube'')],
                  customClassPath = None,
                  cfg_prepareConnectionQueries = Some [''SET a = 1'', ''SET b = 2''] \<rparr>,
       pool = \<lparr> min_pool = 0, max_pool = 1, evictionRunIntervalMillis = 10000,
                softIdleTimeoutMillis = 30000, idleTimeoutMillis = 30000,
                testOnBorrow = True, acquireTimeoutMillis = 20000 \<rparr> \<rparr>"

text \<open>
  A native layer where every call succeeds: a new handle is the length of the trace so
  far, every query answers the one row of \<^verbatim>\<open>SELECT 1\<close>.
\<close>

definition healthy_host :: host where
  "healthy_host =
     \<lparr> Java_addToClasspath = (\<lambda>t. None),
       DriverManager_getConnection = (\<lambda>t u ps. Inr (length t)),
       connection_close = (\<lambda>t c. None),
       connection_isValid = (\<lambda>t c x. Inr True),
       connection_createStatement = (\<lambda>t c. Inr (length t)),
       statement_setQueryTimeout = (\<lambda>t st n. None),
       statement_executeQuery = (\<lambda>t st q. Inr (ResultSet (length t) (Some (Inr [[(''1'', ''1'')]])))),
       statement_cancel = (\<lambda>t st. None),
       testConnectionTimeout = Inr 10000 \<rparr>"

text \<open>The parameter formatter on a query without placeholders.\<close>

definition plain_format :: "string \<Rightarrow> string list \<Rightarrow> string" where
  "plain_format q vals = q"


definition full_env :: process_env where
  "full_env = \<lparr> CUBEJS_DB_TYPE = Some ''generic'', CUBEJS_JDBC_URL = Some ''jdbc:env'',
                CUBEJS_JDBC_DRIVER = Some ''env.Driver'', CUBEJS_DB_MAX_POOL = Some ''4'' \<rparr>"


text \<open>
  The catalog that an object without entries of its own is: the lookup finds only what
  every object inherits, here \<^verbatim>\<open>constructor\<close> and \<^verbatim>\<open>toString\<close>.
\<close>

definition inherited_catalog :: catalog where
  "inherited_catalog key =
     (if key = ''constructor'' \<or> key = ''toString''
      then Some \<lparr> driverClass = None, jdbcUrl = None,
                  jdbcUrl_throws =
                    Some (Exn JsTypeError ''dbTypeDescription.jdbcUrl is not a function'' None),
                  desc_properties = None, desc_prepareConnectionQueries = None \<rparr>
      else None)"

text \<open>A native layer where every \<^verbatim>\<open>executeQuery\<close> throws \<open>e\<close>.\<close>

definition failing_query :: "exn \<Rightarrow> host" where
  "failing_query e = healthy_host\<lparr>statement_executeQuery := (\<lambda>t st q. Inl e)\<rparr>"

text \<open>
  A native layer whose connections serve one query: the liveness probe answers that a
  connection is not valid once it has been released.
\<close>

definition worn_host :: host where
  "worn_host = healthy_host\<lparr>connection_isValid := (\<lambda>t c x. Inr (PoolRelease c \<notin> set t))\<rparr>"

text \<open>
  The driver that the constructor builds for the scenario's configuration when the
  catalog has no entry and the environment sets nothing: it has no properties.
\<close>

definition bare_driver :: driver where
  "bare_driver =
     \<lparr> config = \<lparr> dbType = Some ''generic'', url = Some ''db://host'',
                  drivername = Some ''x.Driver'', properties = None,
                  customClassPath = None, cfg_prepareConnectionQueries = None \<rparr>,
       pool = \<lparr> min_pool = 0, max_pool = 8, evictionRunIntervalMillis = 10000,
                softIdleTimeoutMillis = 30000, idleTimeoutMillis = 30000,
                testOnBorrow = True, acquireTimeoutMillis = 20000 \<rparr> \<rparr>"

section \<open>Properties of the configuration\<close>

lemma truthy_iff: "truthy v \<longleftrightarrow> (\<exists>s. v = Some s \<and> s \<noteq> [])"
  by (cases v) (simp_all add: truthy_def)

text \<open>
  When the evaluation of line 31 returns, the constructor returns a driver exactly when
  the merged driver identifier and the merged url are both non-empty strings; the
  driver holds the merged configuration; and when it fails it throws one of the two
  configuration errors of lines 38 and 42.
\<close>

lemma constructor_checks:
  assumes "line_31_throws S env cfg = None"
  shows "((\<exists>drv. constructor S parseInt env cfg = Inr drv) \<longleftrightarrow>
      (\<exists>d u. drivername (merged_config S env cfg) = Some d \<and> d \<noteq> [] \<and>
             url (merged_config S env cfg) = Some u \<and> u \<noteq> [])) \<and>
   (\<forall>drv. constructor S parseInt env cfg = Inr drv \<longrightarrow>
      config drv = merged_config S env cfg \<and>
      (\<exists>d u. drivername (config drv) = Some d \<and> d \<noteq> [] \<and>
             url (config drv) = Some u \<and> u \<noteq> [])) \<and>
   ((\<forall>drv. constructor S parseInt env cfg \<noteq> Inr drv) \<longrightarrow>
      constructor S parseInt env cfg = Inl (new_Error ''drivername is required property'') \<or>
      constructor S parseInt env cfg = Inl (new_Error ''url is required property''))"
  using assms by (auto simp: constructor_def Let_def truthy_iff)

text \<open>When the evaluation of line 31 throws, the constructor throws the same.\<close>

lemma constructor_line_31:
  "line_31_throws S env cfg = Some e \<Longrightarrow> constructor S parseInt env cfg = Inl e"
  by (simp add: constructor_def)

text \<open>
  C4. The claim fails on the code for a dbType that names something every object
  inherits: with \<^verbatim>\<open>{dbType: 'constructor', url: 'db://host', drivername: 'x.Driver'}\<close>
  and no \<^verbatim>\<open>CUBEJS_JDBC_URL\<close>, the merged url and driver identifier are non-empty,
  but line 31 calls \<^verbatim>\<open>jdbcUrl()\<close> on the value the lookup found, and the constructor
  throws that call's TypeError instead of returning a driver.
\<close>

theorem constructor_throws_on_inherited_key:
  "constructor inherited_catalog (\<lambda>_. None) no_env
     (generic_config\<lparr>in_dbType := Present (Some ''constructor'')\<rparr>) =
     Inl (Exn JsTypeError ''dbTypeDescription.jdbcUrl is not a function'' None) \<and>
   url (merged_config inherited_catalog no_env
     (generic_config\<lparr>in_dbType := Present (Some ''constructor'')\<rparr>)) = Some ''db://host'' \<and>
   drivername (merged_config inherited_catalog no_env
     (generic_config\<lparr>in_dbType := Present (Some ''constructor'')\<rparr>)) = Some ''x.Driver'' \<and>
   (\<exists>drv. constructor inherited_catalog (\<lambda>_. None) full_env
     (generic_config\<lparr>in_dbType := Present (Some ''constructor'')\<rparr>) = Inr drv)"
  by (simp add: constructor_def line_31_throws_def merged_config_def generic_config_def
      no_env_def full_env_def inherited_catalog_def spread_def truthy_def js_or_def
      dbTypeDescription_def read_entry_def)



section \<open>Properties of the pool, its hooks and the executor\<close>

lemma trace_emit [simp]: "trace (emit e s) = e # trace s"
  and idle_emit [simp]: "idle (emit e s) = idle s"
  and borrowed_emit [simp]: "borrowed (emit e s) = borrowed s"
  and jdbcProps_emit [simp]: "jdbcProps (emit e s) = jdbcProps s"
  and cancelObjs_emit [simp]: "cancelObjs (emit e s) = cancelObjs s"
  and next_obj_emit [simp]: "next_obj (emit e s) = next_obj s"
  by (simp_all add: emit_def)

text \<open>
  The rule for the rounds of the pool: a property that holds when the request is made
  and is kept by every round that calls for another holds at the round that settles the
  request.
\<close>

lemma dispense_rule:
  assumes d: "dispense h drv s = Some (r, s')"
    and i: "I s"
    and again: "\<And>s s1. I s \<Longrightarrow> dispense_step h drv s = Again s1 \<Longrightarrow> I s1"
    and settle: "\<And>s r s1. I s \<Longrightarrow> dispense_step h drv s = Dispatch r s1 \<Longrightarrow> Q r s1"
  shows "Q r s'"
proof -
  have "h = h \<and> drv = drv \<and> I s \<longrightarrow> Q (fst (r, s')) (snd (r, s'))"
  proof (rule dispense.raw_induct
      [where P = "\<lambda>h' drv' s y. h' = h \<and> drv' = drv \<and> I s \<longrightarrow> Q (fst y) (snd y)", OF _ d])
    fix f h' drv' s0 y
    assume IH: "\<And>h' drv' s y. f h' drv' s = Some y \<Longrightarrow>
        h' = h \<and> drv' = drv \<and> I s \<longrightarrow> Q (fst y) (snd y)"
      and body: "(case dispense_step h' drv' s0 of
          Dispatch r s1 \<Rightarrow> Some (r, s1) | Again s1 \<Rightarrow> f h' drv' s1 | Wait \<Rightarrow> None) = Some y"
    show "h' = h \<and> drv' = drv \<and> I s0 \<longrightarrow> Q (fst y) (snd y)"
    proof (intro impI, elim conjE)
      assume eq: "h' = h" "drv' = drv" and inv: "I s0"
      show "Q (fst y) (snd y)"
      proof (cases "dispense_step h drv s0")
        case (Dispatch r1 s1)
        with body eq have "y = (r1, s1)" by simp
        with settle [OF inv Dispatch] show ?thesis by simp
      next
        case (Again s1)
        with body eq have "f h drv s1 = Some y" by simp
        from IH [OF this] again [OF inv Again] show ?thesis by simp
      next
        case Wait
        with body eq show ?thesis by simp
      qed
    qed
  qed
  with i show ?thesis by simp
qed

text \<open>A request is never settled when no round can settle it.\<close>

lemma dispense_never:
  assumes i: "I s"
    and again: "\<And>s s1. I s \<Longrightarrow> dispense_step h drv s = Again s1 \<Longrightarrow> I s1"
    and settle: "\<And>s r s1. I s \<Longrightarrow> dispense_step h drv s \<noteq> Dispatch r s1"
  shows "dispense h drv s = None"
proof (cases "dispense h drv s")
  case None
  then show ?thesis .
next
  case (Some y)
  have False
  proof (rule dispense_rule [where Q = "\<lambda>r s. False" and I = I])
    show "dispense h drv s = Some (fst y, snd y)" using Some by simp
    show "I s" by (rule i)
  next
    fix s s1 assume "I s" "dispense_step h drv s = Again s1"
    then show "I s1" by (rule again)
  next
    fix s r s1 assume "I s" "dispense_step h drv s = Dispatch r s1"
    with settle show False by blast
  qed
  then show ?thesis ..
qed

lemma guarded_dispense_step:
  "guarded (trace s) \<Longrightarrow>
     (case dispense_step h drv s of
        Dispatch r s1 \<Rightarrow> guarded (trace s1)
      | Again s1 \<Rightarrow> guarded (trace s1)
      | Wait \<Rightarrow> True)"
  by (auto simp: dispense_step_def create_def validate_def destroy_def Let_def exec_ok_def
      split: list.splits sum.splits option.splits bool.splits prod.splits)

lemma guarded_acquire:
  assumes "acquire h drv s = Some (r, s')" and "guarded (trace s)"
  shows "guarded (trace s')"
proof (rule dispense_rule [where I = "\<lambda>s. guarded (trace s)" and Q = "\<lambda>r s. guarded (trace s)"])
  show "dispense h drv s = Some (r, s')" using assms(1) by (simp add: acquire_def)
  show "guarded (trace s)" by (rule assms(2))
next
  fix s s1 assume "guarded (trace s)" "dispense_step h drv s = Again s1"
  with guarded_dispense_step [of s h drv] show "guarded (trace s1)" by simp
next
  fix s r s1 assume "guarded (trace s)" "dispense_step h drv s = Dispatch r s1"
  with guarded_dispense_step [of s h drv] show "guarded (trace s1)" by simp
qed

lemma executeStatement_cases:
  "executeStatement h c q co s = (r, s') \<Longrightarrow>
     (\<exists>e. r = Inl e \<and> trace s' = CreateStatement c None # trace s) \<or>
     (\<exists>e st. r = Inl e \<and> connection_createStatement h (trace s) c = Inr st \<and>
        trace s' = SetQueryTimeout st 600 # CreateStatement c (Some st) # trace s) \<or>
     (\<exists>st. connection_createStatement h (trace s) c = Inr st \<and>
        trace s' = ExecuteQuery st q # SetQueryTimeout st 600 # CreateStatement c (Some st) # trace s)"
  by (auto simp: executeStatement_def Let_def split: sum.splits option.splits)


lemma executeStatement_trace_indep:
  "trace (snd (executeStatement h c q co s)) = trace (snd (executeStatement h c q None s))"
  by (auto simp: executeStatement_def Let_def split: sum.splits option.splits)

lemma executeStatement_success:
  "executeStatement h c q co s = (Inr v, s') \<Longrightarrow>
     \<exists>st. connection_createStatement h (trace s) c = Inr st \<and>
        trace s' = ExecuteQuery st q # SetQueryTimeout st 600 # CreateStatement c (Some st) # trace s"
  by (auto simp: executeStatement_def Let_def split: sum.splits option.splits)

lemma guarded_executeStatement:
  "guarded (trace s) \<Longrightarrow> guarded (trace (snd (executeStatement h c q co s)))"
  by (auto simp: executeStatement_def Let_def exec_ok_def split: sum.splits option.splits)

lemma guarded_run_prepare:
  "guarded (trace s) \<Longrightarrow> guarded (trace (snd (run_prepare h c qs s)))"
proof (induction qs arbitrary: s)
  case Nil
  then show ?case by simp
next
  case (Cons q qs)
  from Cons.prems have g: "guarded (trace (snd (executeStatement h c q None s)))"
    by (rule guarded_executeStatement)
  show ?case
  proof (cases "executeStatement h c q None s")
    case (Pair r s1)
    with g have "guarded (trace s1)" by simp
    with Pair Cons.IH [of s1] show ?thesis by (cases r) simp_all
  qed
qed

lemma guarded_run_statements:
  "guarded (trace s) \<Longrightarrow> guarded (trace (snd (run_statements h c qs q co s)))"
proof -
  assume g: "guarded (trace s)"
  obtain r s1 where p: "run_prepare h c qs s = (r, s1)" by (cases "run_prepare h c qs s")
  from g have "guarded (trace (snd (run_prepare h c qs s)))" by (rule guarded_run_prepare)
  with p have g1: "guarded (trace s1)" by simp
  show ?thesis
  proof (cases r)
    case (Inl e)
    with p g1 show ?thesis by (simp add: run_statements_def)
  next
    case (Inr u)
    with p guarded_executeStatement [OF g1, of h c q co] show ?thesis
      by (simp add: run_statements_def)
  qed
qed

lemma guarded_release: "guarded (trace s) \<Longrightarrow> guarded (trace (release c s))"
  by (simp add: release_def exec_ok_def)

lemma trace_new_cancelObj [simp]: "trace (new_cancelObj s) = trace s"
  and idle_new_cancelObj [simp]: "idle (new_cancelObj s) = idle s"
  and borrowed_new_cancelObj [simp]: "borrowed (new_cancelObj s) = borrowed s"
  and jdbcProps_new_cancelObj [simp]: "jdbcProps (new_cancelObj s) = jdbcProps s"
  by (simp_all add: new_cancelObj_def)

text \<open>\<open>queryPromised\<close> by the outcome of \<open>acquire\<close>.\<close>

lemma queryPromised_pending:
  "acquire h drv s = None \<Longrightarrow> queryPromised h drv q co opts s = None"
  by (simp add: queryPromised_def)

lemma queryPromised_not_acquired:
  "acquire h drv s = Some (Inl ex, s1) \<Longrightarrow>
   queryPromised h drv q co opts s = Some (Inl (rethrow ex), s1)"
  by (simp add: queryPromised_def)

lemma queryPromised_acquired:
  "acquire h drv s = Some (Inr c, s1) \<Longrightarrow>
   queryPromised h drv q co opts s =
     Some (map_sum rethrow id
             (fst (run_statements h c (options_prepareConnectionQueries opts) q co s1)),
           release c (snd (run_statements h c (options_prepareConnectionQueries opts) q co s1)))"
  by (auto simp: queryPromised_def split: prod.splits sum.splits)

lemma query_unfold:
  "query format S h drv q vals s =
     (\<lparr> settled = map_option fst
           (queryPromised h drv (format q vals) (Some (next_obj s))
              (ArrayValue (prepareConnectionQueries S drv)) (new_cancelObj s)),
         cancel_prop = None \<rparr>,
      map_option snd
        (queryPromised h drv (format q vals) (Some (next_obj s))
           (ArrayValue (prepareConnectionQueries S drv)) (new_cancelObj s)))"
  by (simp add: query_def query_inner_def applyParams_def Let_def async_return_def)

lemma guarded_queryPromised:
  assumes q: "queryPromised h drv q co opts s = Some (r, s')" and g: "guarded (trace s)"
  shows "guarded (trace s')"
proof (cases "acquire h drv s")
  case None
  with q show ?thesis by (simp add: queryPromised_pending)
next
  case (Some a)
  obtain ra s1 where a: "a = (ra, s1)" by (cases a)
  with Some guarded_acquire [of h drv s ra s1] g have g1: "guarded (trace s1)" by simp
  show ?thesis
  proof (cases ra)
    case (Inl ex)
    with Some a q g1 show ?thesis by (simp add: queryPromised_not_acquired)
  next
    case (Inr c)
    let ?p = "run_statements h c (options_prepareConnectionQueries opts) q co s1"
    from g1 have "guarded (trace (snd ?p))" by (rule guarded_run_statements)
    then have "guarded (trace (release c (snd ?p)))" by (rule guarded_release)
    with Some a Inr q show ?thesis by (simp add: queryPromised_acquired)
  qed
qed

text \<open>The definitions that evaluate the model at a concrete input.\<close>

lemmas eval_defs = healthy_host_def failing_query_def worn_host_def fresh_state_def
  single_driver_def plain_format_def executeStatement_def emit_def Let_def queryPromised_def
  acquire_def dispense.simps dispense_step_def create_def getJdbcProperties_def
  run_statements_def release_def options_prepareConnectionQueries_def
  prepareConnectionQueries_def rethrow_def new_Error_def to_message_def validate_def
  destroy_def exec_ok_def query_unfold new_cancelObj_def

section \<open>The claims about the executor and the pool hooks\<close>

text \<open>
  C9. Every call of \<^verbatim>\<open>executeQuery\<close>, for a preparatory statement or for the main
  query, is on a statement that \<^verbatim>\<open>createStatement\<close> returned within the same
  execution, two native calls earlier, with \<^verbatim>\<open>setQueryTimeout(600)\<close> on that
  statement in between: \<open>guarded\<close> is kept by \<open>executeStatement\<close> and by all of
  \<open>queryPromised\<close>, however it is settled. The trace of an execution is the same with
  and without a cancellation handle, it has one of three shapes, and an execution that
  returns normally has made all three calls.
\<close>

theorem timeout_set_before_every_execution:
  "(guarded (trace s) \<longrightarrow>
      guarded (trace (snd (executeStatement h c q co s))) \<and>
      (\<forall>r s'. queryPromised h drv q co opts s = Some (r, s') \<longrightarrow> guarded (trace s'))) \<and>
   trace (snd (executeStatement h c q co s)) = trace (snd (executeStatement h c q None s)) \<and>
   (trace (snd (executeStatement h c q co s)) = CreateStatement c None # trace s \<or>
    (\<exists>st. connection_createStatement h (trace s) c = Inr st \<and>
       (trace (snd (executeStatement h c q co s)) =
          SetQueryTimeout st 600 # CreateStatement c (Some st) # trace s \<or>
        trace (snd (executeStatement h c q co s)) =
          ExecuteQuery st q # SetQueryTimeout st 600 # CreateStatement c (Some st) # trace s))) \<and>
   (\<forall>v. fst (executeStatement h c q co s) = Inr v \<longrightarrow>
      (\<exists>st. connection_createStatement h (trace s) c = Inr st \<and>
         trace (snd (executeStatement h c q co s)) =
           ExecuteQuery st q # SetQueryTimeout st 600 # CreateStatement c (Some st) # trace s))"
proof (intro conjI impI allI)
  assume "guarded (trace s)"
  then show "guarded (trace (snd (executeStatement h c q co s)))"
    by (rule guarded_executeStatement)
next
  fix r s'
  assume "guarded (trace s)" and "queryPromised h drv q co opts s = Some (r, s')"
  then show "guarded (trace s')"
    by (rule guarded_queryPromised [rotated])
next
  show "trace (snd (executeStatement h c q co s)) = trace (snd (executeStatement h c q None s))"
    by (rule executeStatement_trace_indep)
next
  obtain r s' where e: "executeStatement h c q co s = (r, s')"
    by (cases "executeStatement h c q co s")
  from executeStatement_cases [OF e] e
  show "trace (snd (executeStatement h c q co s)) = CreateStatement c None # trace s \<or>
    (\<exists>st. connection_createStatement h (trace s) c = Inr st \<and>
       (trace (snd (executeStatement h c q co s)) =
          SetQueryTimeout st 600 # CreateStatement c (Some st) # trace s \<or>
        trace (snd (executeStatement h c q co s)) =
          ExecuteQuery st q # SetQueryTimeout st 600 # CreateStatement c (Some st) # trace s))"
    by auto
next
  fix v
  assume "fst (executeStatement h c q co s) = Inr v"
  then have "executeStatement h c q co s = (Inr v, snd (executeStatement h c q co s))"
    by (cases "executeStatement h c q co s") simp
  from executeStatement_success [OF this]
  show "\<exists>st. connection_createStatement h (trace s) c = Inr st \<and>
         trace (snd (executeStatement h c q co s)) =
           ExecuteQuery st q # SetQueryTimeout st 600 # CreateStatement c (Some st) # trace s" .
qed

theorem timeout_set_before_every_execution_witness:
  "guarded (trace fresh_state) \<and>
   (\<exists>r s'. queryPromised healthy_host single_driver ''SELECT 1'' None
              (ObjectValue (Some [''SET a = 1''])) fresh_state = Some (r, s') \<and>
            guarded (trace s') \<and> executed (trace s') = [''SET a = 1'', ''SELECT 1'']) \<and>
   trace (snd (executeStatement healthy_host 7 ''SELECT 1'' (Some 0) fresh_state)) =
     [ExecuteQuery 0 ''SELECT 1'', SetQueryTimeout 0 600, CreateStatement 7 (Some 0)]"
  using timeout_set_before_every_execution [of fresh_state healthy_host 7 "''SELECT 1''" "Some 0"
      single_driver "ObjectValue (Some [''SET a = 1''])"]
    timeout_set_before_every_execution [of fresh_state healthy_host 7 "''SELECT 1''" None
      single_driver "ObjectValue (Some [''SET a = 1''])"]
  by (simp add: eval_defs)

text \<open>
  C6. The \<^verbatim>\<open>validate\<close> hook returns a boolean whatever the probe does: the probe's
  answer when \<^verbatim>\<open>isValid\<close> returns, \<open>False\<close> when it throws (or when reading the
  timeout throws). The probe is called with the test-connection timeout divided by 1000.
\<close>

theorem validate_never_throws:
  "(\<exists>b. fst (validate h drv c s) = Inr b) \<and>
   (\<forall>t b. testConnectionTimeout h = Inr t \<and>
           connection_isValid h (trace s) c (t / 1000) = Inr b \<longrightarrow>
      validate h drv c s = (Inr b, emit (IsValid c (t / 1000)) s)) \<and>
   (\<forall>t e. testConnectionTimeout h = Inr t \<and>
           connection_isValid h (trace s) c (t / 1000) = Inl e \<longrightarrow>
      fst (validate h drv c s) = Inr False) \<and>
   (\<forall>e. testConnectionTimeout h = Inl e \<longrightarrow> fst (validate h drv c s) = Inr False)"
  by (auto simp: validate_def split: sum.splits)

theorem validate_never_throws_witness:
  "fst (validate (healthy_host\<lparr>connection_isValid :=
          (\<lambda>t c x. if x = 10 then Inr True else Inl (new_Error ''unexpected timeout''))\<rparr>)
        single_driver 3 fresh_state) = Inr True \<and>
   fst (validate (healthy_host\<lparr>connection_isValid := (\<lambda>t c x. Inr False)\<rparr>)
        single_driver 3 fresh_state) = Inr False \<and>
   fst (validate (healthy_host\<lparr>connection_isValid := (\<lambda>t c x. Inl (new_Error ''closed''))\<rparr>)
        single_driver 3 fresh_state) = Inr False \<and>
   fst (validate (healthy_host\<lparr>testConnectionTimeout := Inl (new_Error ''no timeout'')\<rparr>)
        single_driver 3 fresh_state) = Inr False"
  using validate_never_throws [of "healthy_host\<lparr>connection_isValid :=
          (\<lambda>t c x. if x = 10 then Inr True else Inl (new_Error ''unexpected timeout''))\<rparr>"
        single_driver 3 fresh_state]
    validate_never_throws [of "healthy_host\<lparr>connection_isValid := (\<lambda>t c x. Inl (new_Error ''closed''))\<rparr>"
        single_driver 3 fresh_state]
  by (simp add: eval_defs)

section \<open>The claims about queries\<close>

text \<open>
  C3, as the claim states it: it fails. An exception whose cause has no
  \<^verbatim>\<open>getMessage\<close> function carries a cause, and the query is rejected with the
  TypeError that line 158 raises, not with an error carrying the cause's message. And
  for a cause that has a cause of its own, the message is that of the object at
  \<^verbatim>\<open>ex.cause\<close>, not that of the root of the chain.
\<close>

theorem rethrow_cause_counterexample:
  "settled (fst (query plain_format no_catalog
       (failing_query (Exn JsError ''failed'' (Some (Throwable NotAFunction None))))
       single_driver ''SELECT 1'' [] fresh_state)) =
     Some (Inl (Exn JsTypeError ''ex.cause.getMessage is not a function'' None)) \<and>
   settled (fst (query plain_format no_catalog
       (failing_query (Exn JsError ''failed''
          (Some (Throwable (Returned (Some ''wrapper''))
             (Some (Throwable (Returned (Some ''syntax error'')) None))))))
       single_driver ''SELECT 1'' [] fresh_state)) =
     Some (Inl (Exn JsError ''wrapper'' None)) \<and>
   getMessage (root_cause (Throwable (Returned (Some ''wrapper''))
       (Some (Throwable (Returned (Some ''syntax error'')) None)))) =
     Returned (Some ''syntax error'')"
  by (simp add: eval_defs)

text \<open>
  C3, amended. When the pool handed out a connection and a preparatory statement or
  the main statement throws \<open>ex\<close>: if \<open>ex\<close> carries a cause whose
  \<^verbatim>\<open>getMessage()\<close> returns a string, \<open>queryPromised\<close> throws a new
  \<^verbatim>\<open>Error\<close> whose message is exactly that string, the message of the object at
  \<^verbatim>\<open>ex.cause\<close> (a message that is \<^verbatim>\<open>null\<close> gives the message
  \<^verbatim>\<open>'null'\<close>); if the cause has no \<^verbatim>\<open>getMessage\<close> function, it throws the
  TypeError of that call; without a cause it throws \<open>ex\<close> itself. The promise that
  \<open>query\<close> returns is rejected with the same value.
\<close>

theorem queryPromised_rethrows_cause:
  "(acquire h drv s = Some (Inr c, sa) \<and>
    fst (run_statements h c (options_prepareConnectionQueries opts) q co sa) = Inl ex \<longrightarrow>
      map_option fst (queryPromised h drv q co opts s) =
        Some (Inl (case cause ex of
                     None \<Rightarrow> ex
                   | Some t \<Rightarrow>
                       (case getMessage t of
                          NotAFunction \<Rightarrow>
                            Exn JsTypeError ''ex.cause.getMessage is not a function'' None
                        | Returned None \<Rightarrow> Exn JsError ''null'' None
                        | Returned (Some m) \<Rightarrow> Exn JsError m None)))) \<and>
   (acquire h drv (new_cancelObj s) = Some (Inr c, sa) \<and>
    fst (run_statements h c
           (options_prepareConnectionQueries (ArrayValue (prepareConnectionQueries S drv)))
           (format q vals) (Some (next_obj s)) sa) = Inl ex \<longrightarrow>
      settled (fst (query format S h drv q vals s)) =
        Some (Inl (case cause ex of
                     None \<Rightarrow> ex
                   | Some t \<Rightarrow>
                       (case getMessage t of
                          NotAFunction \<Rightarrow>
                            Exn JsTypeError ''ex.cause.getMessage is not a function'' None
                        | Returned None \<Rightarrow> Exn JsError ''null'' None
                        | Returned (Some m) \<Rightarrow> Exn JsError m None))))"
  by (auto simp: query_unfold queryPromised_acquired rethrow_def new_Error_def to_message_def
      split: option.splits call_result.splits)

theorem queryPromised_rethrows_cause_witness:
  "settled (fst (query plain_format no_catalog
       (failing_query (Exn JsError ''java.sql.SQLException''
          (Some (Throwable (Returned (Some ''syntax error'')) None))))
       single_driver ''SELEC 1'' [] fresh_state)) = Some (Inl (Exn JsError ''syntax error'' None)) \<and>
   settled (fst (query plain_format no_catalog
       (failing_query (Exn JsError ''java.lang.NullPointerException''
          (Some (Throwable (Returned None) None))))
       single_driver ''SELEC 1'' [] fresh_state)) = Some (Inl (Exn JsError ''null'' None)) \<and>
   settled (fst (query plain_format no_catalog
       (failing_query (Exn JsTypeError ''not a function'' None))
       single_driver ''SELEC 1'' [] fresh_state)) =
     Some (Inl (Exn JsTypeError ''not a function'' None)) \<and>
   map_option fst (queryPromised
       (failing_query (Exn JsError ''java.sql.SQLException''
          (Some (Throwable (Returned (Some ''syntax error'')) None))))
       single_driver ''SELECT 1'' None (ObjectValue (Some [''SET a = 1''])) fresh_state) =
     Some (Inl (Exn JsError ''syntax error'' None)) \<and>
   map_option (\<lambda>r. executed (trace (snd r))) (queryPromised
       (failing_query (Exn JsError ''java.sql.SQLException''
          (Some (Throwable (Returned (Some ''syntax error'')) None))))
       single_driver ''SELECT 1'' None (ObjectValue (Some [''SET a = 1''])) fresh_state) =
     Some [''SET a = 1'']"
  using queryPromised_rethrows_cause
    [where h = "failing_query (Exn JsError ''java.sql.SQLException''
          (Some (Throwable (Returned (Some ''syntax error'')) None)))"
       and drv = single_driver and s = fresh_state and S = no_catalog and format = plain_format
       and q = "''SELEC 1''" and vals = "[]"
       and ex = "Exn JsError ''java.sql.SQLException''
          (Some (Throwable (Returned (Some ''syntax error'')) None))"
       and c = "projr (fst (the (acquire (failing_query (Exn JsError ''java.sql.SQLException''
          (Some (Throwable (Returned (Some ''syntax error'')) None)))) single_driver
            (new_cancelObj fresh_state))))"
       and sa = "snd (the (acquire (failing_query (Exn JsError ''java.sql.SQLException''
          (Some (Throwable (Returned (Some ''syntax error'')) None)))) single_driver
            (new_cancelObj fresh_state)))"]
    queryPromised_rethrows_cause
    [where h = "failing_query (Exn JsTypeError ''not a function'' None)"
       and drv = single_driver and s = fresh_state and S = no_catalog and format = plain_format
       and q = "''SELEC 1''" and vals = "[]"
       and ex = "Exn JsTypeError ''not a function'' None"
       and c = "projr (fst (the (acquire (failing_query (Exn JsTypeError ''not a function'' None))
                  single_driver (new_cancelObj fresh_state))))"
       and sa = "snd (the (acquire (failing_query (Exn JsTypeError ''not a function'' None))
                  single_driver (new_cancelObj fresh_state)))"]
  by (simp add: eval_defs)

subsection \<open>Which queries reach the native layer\<close>

lemma executed_executeStatement:
  "executed (trace (snd (executeStatement h c q co s))) = executed (trace s) \<or>
   executed (trace (snd (executeStatement h c q co s))) = executed (trace s) @ [q]"
  by (auto simp: executeStatement_def Let_def split: sum.splits option.splits)

lemma executed_executeStatement_success:
  "fst (executeStatement h c q co s) = Inr v \<Longrightarrow>
   executed (trace (snd (executeStatement h c q co s))) = executed (trace s) @ [q]"
  by (auto simp: executeStatement_def Let_def split: sum.splits option.splits)

lemma executed_run_prepare_success:
  "fst (run_prepare h c qs s) = Inr u \<Longrightarrow>
   executed (trace (snd (run_prepare h c qs s))) = executed (trace s) @ qs"
proof (induction qs arbitrary: s)
  case Nil
  then show ?case by simp
next
  case (Cons q qs)
  obtain r s1 where e: "executeStatement h c q None s = (r, s1)"
    by (cases "executeStatement h c q None s")
  show ?case
  proof (cases r)
    case (Inl ex)
    with e Cons.prems show ?thesis by simp
  next
    case (Inr v)
    with e executed_executeStatement_success [of h c q None s v]
    have s1: "executed (trace s1) = executed (trace s) @ [q]" by simp
    from e Inr Cons.prems have "fst (run_prepare h c qs s1) = Inr u" by simp
    from Cons.IH [OF this] s1 e Inr show ?thesis by simp
  qed
qed

lemma executed_dispense_step:
  "case dispense_step h drv s of
     Dispatch r s1 \<Rightarrow> executed (trace s1) = executed (trace s)
   | Again s1 \<Rightarrow> executed (trace s1) = executed (trace s)
   | Wait \<Rightarrow> True"
  by (auto simp: dispense_step_def create_def validate_def destroy_def Let_def
      split: list.splits sum.splits option.splits bool.splits prod.splits)

lemma executed_acquire:
  assumes "acquire h drv s = Some (r, s')"
  shows "executed (trace s') = executed (trace s)"
proof (rule dispense_rule [where I = "\<lambda>s0. executed (trace s0) = executed (trace s)"
      and Q = "\<lambda>r s0. executed (trace s0) = executed (trace s)"])
  show "dispense h drv s = Some (r, s')" using assms by (simp add: acquire_def)
  show "executed (trace s) = executed (trace s)" by simp
next
  fix s0 s1 assume "executed (trace s0) = executed (trace s)" "dispense_step h drv s0 = Again s1"
  with executed_dispense_step [where h = h and drv = drv and s = s0] show "executed (trace s1) = executed (trace s)"
    by simp
next
  fix s0 r s1
  assume "executed (trace s0) = executed (trace s)" "dispense_step h drv s0 = Dispatch r s1"
  with executed_dispense_step [where h = h and drv = drv and s = s0] show "executed (trace s1) = executed (trace s)"
    by simp
qed

lemma executed_release: "executed (trace (release c s)) = executed (trace s)"
  by (simp add: release_def)

lemma executed_run_statements_success:
  assumes "fst (run_statements h c qs q co s) = Inr v"
  shows "executed (trace (snd (run_statements h c qs q co s))) = executed (trace s) @ qs @ [q]"
proof -
  obtain r s1 where p: "run_prepare h c qs s = (r, s1)" by (cases "run_prepare h c qs s")
  show ?thesis
  proof (cases r)
    case (Inl ex)
    with p assms show ?thesis by (simp add: run_statements_def)
  next
    case (Inr u)
    with p executed_run_prepare_success [of h c qs s u]
    have s1: "executed (trace s1) = executed (trace s) @ qs" by simp
    from p Inr assms have "fst (executeStatement h c q co s1) = Inr v"
      by (simp add: run_statements_def)
    from executed_executeStatement_success [OF this] s1 p Inr show ?thesis
      by (simp add: run_statements_def)
  qed
qed

text \<open>With an options object, the preparatory statements run in order before the query.\<close>

lemma queryPromised_runs_prepare_in_order:
  assumes "queryPromised h drv q co (ObjectValue (Some qs)) s = Some (Inr v, s')"
  shows "executed (trace s') = executed (trace s) @ qs @ [q]"
proof (cases "acquire h drv s")
  case None
  with assms show ?thesis by (simp add: queryPromised_pending)
next
  case (Some a)
  obtain r s1 where a: "a = (r, s1)" by (cases a)
  with Some executed_acquire [of h drv s r s1]
  have e1: "executed (trace s1) = executed (trace s)" by simp
  show ?thesis
  proof (cases r)
    case (Inl ex)
    with Some a assms show ?thesis by (simp add: queryPromised_not_acquired)
  next
    case (Inr c)
    with Some a assms have s': "s' = release c (snd (run_statements h c qs q co s1))"
      and "map_sum rethrow id (fst (run_statements h c qs q co s1)) = Inr v"
      by (simp_all add: queryPromised_acquired options_prepareConnectionQueries_def)
    then have "fst (run_statements h c qs q co s1) = Inr v"
      by (cases "fst (run_statements h c qs q co s1)") simp_all
    from executed_run_statements_success [OF this] s' e1 show ?thesis
      by (simp add: executed_release)
  qed
qed

text \<open>Through \<open>query\<close>, at most the main query is executed.\<close>

lemma query_executes_only_main:
  assumes "snd (query format S h drv q vals s) = Some s'"
  shows "executed (trace s') = executed (trace s) \<or>
         executed (trace s') = executed (trace s) @ [format q vals]"
proof (cases "acquire h drv (new_cancelObj s)")
  case None
  with assms show ?thesis by (simp add: query_unfold queryPromised_pending)
next
  case (Some a)
  obtain r s1 where a: "a = (r, s1)" by (cases a)
  with Some executed_acquire [of h drv "new_cancelObj s" r s1]
  have e1: "executed (trace s1) = executed (trace s)" by simp
  show ?thesis
  proof (cases r)
    case (Inl ex)
    with Some a assms e1 show ?thesis by (simp add: query_unfold queryPromised_not_acquired)
  next
    case (Inr c)
    from executed_executeStatement [of h c "format q vals" "Some (next_obj s)" s1] e1 Some a Inr
      assms
    show ?thesis
      by (auto simp: query_unfold queryPromised_acquired options_prepareConnectionQueries_def
          run_statements_def executed_release)
  qed
qed

text \<open>
  C5. \<open>queryPromised\<close> reads the preparatory statements from the property
  \<^verbatim>\<open>prepareConnectionQueries\<close> of its \<^verbatim>\<open>options\<close> argument (line 148), and runs
  them in order before the query when it is given such an object
  (\<open>queryPromised_runs_prepare_in_order\<close>). Line 121 passes the resolved array itself as
  \<^verbatim>\<open>options\<close>; an array has no such property, so \<open>query\<close> runs no preparatory
  statement (\<open>query_executes_only_main\<close>). Here the driver resolves two preparatory
  statements, the query succeeds, and \<^verbatim>\<open>SELECT 1\<close> is the only statement executed.
\<close>

theorem query_skips_prepareConnectionQueries:
  "prepareConnectionQueries no_catalog single_driver = [''SET a = 1'', ''SET b = 2''] \<and>
   settled (fst (query plain_format no_catalog healthy_host single_driver ''SELECT 1'' []
      fresh_state)) = Some (Inr (Rows [[(''1'', ''1'')]])) \<and>
   map_option (\<lambda>s'. executed (trace s'))
     (snd (query plain_format no_catalog healthy_host single_driver ''SELECT 1'' []
        fresh_state)) = Some [''SELECT 1'']"
  by (simp add: eval_defs)

subsection \<open>Cancellation\<close>

text \<open>
  The promise that line 121 binds carries the \<^verbatim>\<open>cancel\<close> function. Called while
  the \<^verbatim>\<open>cancelObj\<close> has no statement it rejects with the message of line 123;
  called once the main statement exists it calls the native \<^verbatim>\<open>cancel\<close> of that
  statement once. Only the execution of the main query binds the handle.
\<close>

lemma query_inner_has_cancel:
  "cancel_prop (fst (query_inner format S h drv q vals s)) = Some (next_obj s)"
  by (simp add: query_inner_def Let_def split: prod.splits)

lemma promise_cancel_not_ready:
  "cancelObjs s a = None \<Longrightarrow>
   promise_cancel h a s = (Inl (new_Error ''Statement is not ready''), s)"
  by (simp add: promise_cancel_def)

lemma promise_cancel_once:
  "cancelObjs s a = Some st \<Longrightarrow>
   trace (snd (promise_cancel h a s)) = Cancel st # trace s \<and>
   cancels st (trace (snd (promise_cancel h a s))) = Suc (cancels st (trace s))"
  by (simp add: promise_cancel_def)

lemma executeStatement_binds_cancel:
  "connection_createStatement h (trace s) c = Inr st \<Longrightarrow>
   cancelObjs (snd (executeStatement h c q (Some a) s)) a = Some st"
  by (auto simp: executeStatement_def Let_def emit_def split: sum.splits option.splits)

lemma executeStatement_no_handle:
  "cancelObjs (snd (executeStatement h c q None s)) = cancelObjs s"
  by (auto simp: executeStatement_def Let_def emit_def split: sum.splits option.splits)

text \<open>
  C1. \<^verbatim>\<open>query\<close> is declared \<^verbatim>\<open>async\<close>: what its caller receives is the promise of
  the call, not the promise that line 122 extended, and that promise has no
  \<^verbatim>\<open>cancel\<close> property, for every input.
\<close>

theorem query_promise_has_no_cancel:
  "cancel_prop (fst (query format S h drv q vals s)) = None"
  by (simp add: query_unfold)

subsection \<open>The health check\<close>

text \<open>
  C10. \<open>testConnection\<close> is \<open>query\<close> at \<^verbatim>\<open>'SELECT 1'\<close> and no parameters, in
  every state. When the formatter leaves that query as it is, the pool hands out a
  connection, and the native layer creates a statement on it, accepts the timeout and
  answers the query with one row, then the promise that \<open>testConnection\<close> returns is
  fulfilled with that one-row result set, after exactly these three native calls and the
  release of the connection.
\<close>

theorem testConnection_is_query_select_1:
  "testConnection format S h drv s = query format S h drv ''SELECT 1'' [] s \<and>
   (format ''SELECT 1'' [] = ''SELECT 1'' \<and>
    acquire h drv (new_cancelObj s) = Some (Inr c, sa) \<and>
    connection_createStatement h (trace sa) c = Inr st \<and>
    statement_setQueryTimeout h (CreateStatement c (Some st) # trace sa) st 600 = None \<and>
    statement_executeQuery h (SetQueryTimeout st 600 # CreateStatement c (Some st) # trace sa)
      st ''SELECT 1'' = Inr rs \<and>
    toObjArray rs = Some (Inr [r]) \<longrightarrow>
      settled (fst (testConnection format S h drv s)) = Some (Inr (Rows [r])) \<and>
      map_option trace (snd (testConnection format S h drv s)) =
        Some (PoolRelease c # ExecuteQuery st ''SELECT 1'' # SetQueryTimeout st 600 #
              CreateStatement c (Some st) # trace sa))"
proof (intro conjI impI)
  show "testConnection format S h drv s = query format S h drv ''SELECT 1'' [] s"
    by (simp add: testConnection_def)
next
  assume a: "format ''SELECT 1'' [] = ''SELECT 1'' \<and>
    acquire h drv (new_cancelObj s) = Some (Inr c, sa) \<and>
    connection_createStatement h (trace sa) c = Inr st \<and>
    statement_setQueryTimeout h (CreateStatement c (Some st) # trace sa) st 600 = None \<and>
    statement_executeQuery h (SetQueryTimeout st 600 # CreateStatement c (Some st) # trace sa)
      st ''SELECT 1'' = Inr rs \<and>
    toObjArray rs = Some (Inr [r])"
  then have e: "fst (executeStatement h c ''SELECT 1'' (Some (next_obj s)) sa) = Inr (Rows [r])"
    and t: "trace (snd (executeStatement h c ''SELECT 1'' (Some (next_obj s)) sa)) =
      ExecuteQuery st ''SELECT 1'' # SetQueryTimeout st 600 # CreateStatement c (Some st) #
        trace sa"
    by (simp_all add: executeStatement_def Let_def)
  from a e have q: "queryPromised h drv ''SELECT 1'' (Some (next_obj s))
      (ArrayValue (prepareConnectionQueries S drv)) (new_cancelObj s) =
      Some (Inr (Rows [r]),
            release c (snd (executeStatement h c ''SELECT 1'' (Some (next_obj s)) sa)))"
    by (simp add: queryPromised_acquired options_prepareConnectionQueries_def
        run_statements_def)
  from a q show "settled (fst (testConnection format S h drv s)) = Some (Inr (Rows [r]))"
    by (simp add: testConnection_def query_unfold)
  from a q t show "map_option trace (snd (testConnection format S h drv s)) =
        Some (PoolRelease c # ExecuteQuery st ''SELECT 1'' # SetQueryTimeout st 600 #
              CreateStatement c (Some st) # trace sa)"
    by (simp add: testConnection_def query_unfold release_def)
qed

text \<open>
  The input of the witness: the healthy native layer and the state of a new driver. The
  pool opens connection 1, validates it and hands it out; the statement is handle 4.
\<close>

lemma healthy_acquire:
  "acquire healthy_host single_driver (new_cancelObj fresh_state) =
     Some (Inr 1,
           (new_cancelObj fresh_state)
             \<lparr>trace := [PoolAcquire 1, IsValid 1 10, GetConnection (Some ''db://host'') (Some 1),
                        AddToClasspath],
              borrowed := [1],
              jdbcProps := Some [''user'' \<mapsto> ''cube'']\<rparr>)"
  by (simp add: eval_defs)

theorem testConnection_is_query_select_1_witness:
  "testConnection plain_format no_catalog healthy_host single_driver fresh_state =
     query plain_format no_catalog healthy_host single_driver ''SELECT 1'' [] fresh_state \<and>
   settled (fst (testConnection plain_format no_catalog healthy_host single_driver fresh_state)) =
     Some (Inr (Rows [[(''1'', ''1'')]])) \<and>
   map_option (\<lambda>s'. rev (trace s'))
     (snd (testConnection plain_format no_catalog healthy_host single_driver fresh_state)) =
     Some [AddToClasspath, GetConnection (Some ''db://host'') (Some 1), IsValid 1 10,
           PoolAcquire 1, CreateStatement 1 (Some 4), SetQueryTimeout 4 600,
           ExecuteQuery 4 ''SELECT 1'', PoolRelease 1]"
proof -
  have f: "plain_format ''SELECT 1'' [] = ''SELECT 1''" by (simp add: plain_format_def)
  let ?sa = "(new_cancelObj fresh_state)
             \<lparr>trace := [PoolAcquire 1, IsValid 1 10, GetConnection (Some ''db://host'') (Some 1),
                        AddToClasspath],
              borrowed := [1],
              jdbcProps := Some [''user'' \<mapsto> ''cube'']\<rparr>"
  have c: "connection_createStatement healthy_host (trace ?sa) 1 = Inr 4"
    by (simp add: healthy_host_def)
  have t: "statement_setQueryTimeout healthy_host (CreateStatement 1 (Some 4) # trace ?sa) 4 600 =
      None"
    by (simp add: healthy_host_def)
  have e: "statement_executeQuery healthy_host
      (SetQueryTimeout 4 600 # CreateStatement 1 (Some 4) # trace ?sa) 4 ''SELECT 1'' =
      Inr (ResultSet 6 (Some (Inr [[(''1'', ''1'')]])))"
    by (simp add: healthy_host_def)
  have r: "toObjArray (ResultSet 6 (Some (Inr [[(''1'', ''1'')]]))) = Some (Inr [[(''1'', ''1'')]])"
    by simp
  from testConnection_is_query_select_1
    [where format = plain_format and S = no_catalog and h = healthy_host
       and drv = single_driver and s = fresh_state and c = 1 and sa = ?sa and st = 4
       and rs = "ResultSet 6 (Some (Inr [[(''1'', ''1'')]]))" and r = "[(''1'', ''1'')]"]
    f healthy_acquire c t e r
  have main: "testConnection plain_format no_catalog healthy_host single_driver fresh_state =
      query plain_format no_catalog healthy_host single_driver ''SELECT 1'' [] fresh_state \<and>
    settled (fst (testConnection plain_format no_catalog healthy_host single_driver
      fresh_state)) = Some (Inr (Rows [[(''1'', ''1'')]])) \<and>
    map_option trace (snd (testConnection plain_format no_catalog healthy_host single_driver
      fresh_state)) =
      Some (PoolRelease 1 # ExecuteQuery 4 ''SELECT 1'' # SetQueryTimeout 4 600 #
            CreateStatement 1 (Some 4) # trace ?sa)"
    by blast
  then obtain z where z: "snd (testConnection plain_format no_catalog healthy_host single_driver
      fresh_state) = Some z"
    and tz: "trace z = PoolRelease 1 # ExecuteQuery 4 ''SELECT 1'' # SetQueryTimeout 4 600 #
            CreateStatement 1 (Some 4) # trace ?sa"
    by auto
  have m3: "map_option (\<lambda>s'. rev (trace s'))
     (snd (testConnection plain_format no_catalog healthy_host single_driver fresh_state)) =
     Some [AddToClasspath, GetConnection (Some ''db://host'') (Some 1), IsValid 1 10,
           PoolAcquire 1, CreateStatement 1 (Some 4), SetQueryTimeout 4 600,
           ExecuteQuery 4 ''SELECT 1'', PoolRelease 1]"
    using z tz by simp
  from main m3 show ?thesis by blast
qed

subsection \<open>Release and reuse of the connection\<close>

lemma create_effect:
  "idle (snd (create h drv s)) = idle s \<and> borrowed (snd (create h drv s)) = borrowed s \<and>
   closed (trace (snd (create h drv s))) = closed (trace s) \<and>
   opened (trace (snd (create h drv s))) =
     (case fst (create h drv s) of Inl e \<Rightarrow> opened (trace s) | Inr c \<Rightarrow> Suc (opened (trace s)))"
  by (auto simp: create_def Let_def split: sum.splits option.splits)















subsection \<open>Connection creation without a properties mapping\<close>

lemma create_without_properties:
  assumes p: "properties (config drv) = None" and j: "jdbcProps s = None"
  shows "fst (create h drv s) =
           Inl (case Java_addToClasspath h (trace s) of
                  Some e \<Rightarrow> e
                | None \<Rightarrow> Exn JsTypeError ''Cannot convert undefined or null to object'' None) \<and>
         jdbcProps (snd (create h drv s)) = None \<and>
         trace (snd (create h drv s)) = AddToClasspath # trace s"
  using p j by (simp add: create_def getJdbcProperties_def Let_def split: option.splits)

text \<open>
  The pool has no connection and cannot get one: every round calls \<^verbatim>\<open>create\<close>,
  which fails, and calls for another round.
\<close>

lemma acquire_never_without_properties:
  assumes p: "properties (config drv) = None"
    and s: "jdbcProps s = None" "idle s = []" "borrowed s = []"
  shows "acquire h drv s = None"
proof -
  have "dispense h drv s = None"
  proof (rule dispense_never
      [where I = "\<lambda>s. jdbcProps s = None \<and> idle s = [] \<and> borrowed s = []"])
    show "jdbcProps s = None \<and> idle s = [] \<and> borrowed s = []" using s by simp
  next
    fix s0 s1 :: state
    assume i: "jdbcProps s0 = None \<and> idle s0 = [] \<and> borrowed s0 = []"
      and a: "dispense_step h drv s0 = Again s1"
    from i create_without_properties [OF p, of s0 h] create_effect [of h drv s0] a
    show "jdbcProps s1 = None \<and> idle s1 = [] \<and> borrowed s1 = []"
      by (cases "create h drv s0")
        (auto simp: dispense_step_def max_def split: if_splits sum.splits)
  next
    fix s0 :: state and r s1
    assume i: "jdbcProps s0 = None \<and> idle s0 = [] \<and> borrowed s0 = []"
    from i create_without_properties [OF p, of s0 h]
    show "dispense_step h drv s0 \<noteq> Dispatch r s1"
      by (cases "create h drv s0")
        (auto simp: dispense_step_def max_def split: if_splits sum.splits)
  qed
  then show ?thesis by (simp add: acquire_def)
qed

lemma constructor_bare_driver:
  "constructor no_catalog (\<lambda>_. None) no_env generic_config = Inr bare_driver"
  by (simp add: constructor_def line_31_throws_def merged_config_def generic_config_def
      no_env_def no_catalog_def no_overrides_def spread_def truthy_def js_or_def
      dbTypeDescription_def read_entry_def createPool_options_def default_max_def
      bare_driver_def)

text \<open>
  C8, as the claim states it: it fails. For the scenario's configuration with no
  catalog entry and no properties the constructor returns a driver; the first query's
  acquire on the healthy native layer is not rejected with the TypeError of
  \<^verbatim>\<open>create\<close>: the pool calls \<^verbatim>\<open>create\<close> again after every failure, and neither
  the acquire nor the query is ever settled.
\<close>

theorem acquire_not_rejected_counterexample:
  "constructor no_catalog (\<lambda>_. None) no_env generic_config = Inr bare_driver \<and>
   fst (create healthy_host bare_driver fresh_state) =
     Inl (Exn JsTypeError ''Cannot convert undefined or null to object'' None) \<and>
   acquire healthy_host bare_driver fresh_state = None \<and>
   settled (fst (query plain_format no_catalog healthy_host bare_driver ''SELECT 1'' []
      fresh_state)) = None"
proof -
  have p: "properties (config bare_driver) = None" by (simp add: bare_driver_def)
  have a: "acquire healthy_host bare_driver fresh_state = None"
    by (rule acquire_never_without_properties [OF p]) (simp_all add: fresh_state_def)
  have b: "acquire healthy_host bare_driver (new_cancelObj fresh_state) = None"
    by (rule acquire_never_without_properties [OF p])
      (simp_all add: fresh_state_def new_cancelObj_def)
  have c: "fst (create healthy_host bare_driver fresh_state) =
     Inl (Exn JsTypeError ''Cannot convert undefined or null to object'' None)"
    using create_without_properties [OF p, of fresh_state healthy_host]
    by (simp add: fresh_state_def healthy_host_def)
  from constructor_bare_driver a b c show ?thesis
    by (simp add: query_unfold queryPromised_pending)
qed

text \<open>
  C8, amended. When the catalog has no entry for the dbType the constructor looks up,
  the configuration supplies no \<^verbatim>\<open>properties\<close>, and url and drivername are
  non-empty, construction succeeds. Every call of \<^verbatim>\<open>create\<close> then fails before it
  reaches \<^verbatim>\<open>DriverManager.getConnection\<close>, so never with a ConnectionError of the
  native driver: \<^verbatim>\<open>this.jdbcProps\<close> is never set, line 51 runs on every call, and
  \<^verbatim>\<open>Object.entries\<close> of the undefined mapping throws the TypeError (unless
  \<^verbatim>\<open>Java.addToClasspath\<close> has thrown just before). The pool, which then never holds
  a connection, does not pass the failure on: it calls \<^verbatim>\<open>create\<close> again, and the
  acquire of a query and the query itself are never settled.
\<close>

theorem create_fails_without_properties:
  "dbTypeDescription S (js_or (read_entry (in_dbType cfg)) (CUBEJS_DB_TYPE env)) = None \<and>
   read_entry (in_properties cfg) = None \<and>
   truthy (url (merged_config S env cfg)) \<and> truthy (drivername (merged_config S env cfg)) \<longrightarrow>
   (\<exists>drv. constructor S parseInt env cfg = Inr drv \<and>
      (\<forall>h s. jdbcProps s = None \<longrightarrow>
         fst (create h drv s) =
           Inl (case Java_addToClasspath h (trace s) of
                  Some e \<Rightarrow> e
                | None \<Rightarrow> Exn JsTypeError ''Cannot convert undefined or null to object'' None) \<and>
         jdbcProps (snd (create h drv s)) = None \<and>
         trace (snd (create h drv s)) = AddToClasspath # trace s) \<and>
      (\<forall>h s format q vals.
         jdbcProps s = None \<and> idle s = [] \<and> borrowed s = [] \<longrightarrow>
           acquire h drv s = None \<and>
           settled (fst (query format S h drv q (vals :: 'v list) s)) = None))"
proof
  assume a: "dbTypeDescription S (js_or (read_entry (in_dbType cfg)) (CUBEJS_DB_TYPE env)) = None \<and>
   read_entry (in_properties cfg) = None \<and>
   truthy (url (merged_config S env cfg)) \<and> truthy (drivername (merged_config S env cfg))"
  let ?drv = "\<lparr> config = merged_config S env cfg,
                 pool = createPool_options parseInt env (poolOptions cfg) \<rparr>"
  from a have c: "constructor S parseInt env cfg = Inr ?drv"
    by (simp add: constructor_def line_31_throws_def Let_def)
  from a have p: "properties (config ?drv) = None"
    by (cases "in_properties cfg") (simp_all add: merged_config_def Let_def spread_def read_entry_def)
  show "\<exists>drv. constructor S parseInt env cfg = Inr drv \<and>
      (\<forall>h s. jdbcProps s = None \<longrightarrow>
         fst (create h drv s) =
           Inl (case Java_addToClasspath h (trace s) of
                  Some e \<Rightarrow> e
                | None \<Rightarrow> Exn JsTypeError ''Cannot convert undefined or null to object'' None) \<and>
         jdbcProps (snd (create h drv s)) = None \<and>
         trace (snd (create h drv s)) = AddToClasspath # trace s) \<and>
      (\<forall>h s format q vals.
         jdbcProps s = None \<and> idle s = [] \<and> borrowed s = [] \<longrightarrow>
           acquire h drv s = None \<and>
           settled (fst (query format S h drv q (vals :: 'v list) s)) = None)"
  proof (intro exI conjI allI impI)
    show "constructor S parseInt env cfg = Inr ?drv" by (rule c)
  next
    fix h :: host and s :: state
    assume "jdbcProps s = None"
    from create_without_properties [OF p this, of h]
    show "fst (create h ?drv s) =
           Inl (case Java_addToClasspath h (trace s) of
                  Some e \<Rightarrow> e
                | None \<Rightarrow> Exn JsTypeError ''Cannot convert undefined or null to object'' None)"
      and "jdbcProps (snd (create h ?drv s)) = None"
      and "trace (snd (create h ?drv s)) = AddToClasspath # trace s"
      by blast+
  next
    fix h :: host and s :: state and format :: "string \<Rightarrow> 'v list \<Rightarrow> string" and q vals
    assume i: "jdbcProps s = None \<and> idle s = [] \<and> borrowed s = []"
    then show "acquire h ?drv s = None"
      using acquire_never_without_properties [OF p, of s h] by blast
    from i have "acquire h ?drv (new_cancelObj s) = None"
      using acquire_never_without_properties [OF p, of "new_cancelObj s" h] by simp
    then show "settled (fst (query format S h ?drv q vals s)) = None"
      by (simp add: query_unfold queryPromised_pending)
  qed
qed

theorem create_fails_without_properties_witness:
  "\<exists>drv. constructor no_catalog (\<lambda>_. None) no_env generic_config = Inr drv \<and>
      fst (create healthy_host drv fresh_state) =
        Inl (Exn JsTypeError ''Cannot convert undefined or null to object'' None) \<and>
      fst (create healthy_host drv (snd (create healthy_host drv fresh_state))) =
        Inl (Exn JsTypeError ''Cannot convert undefined or null to object'' None) \<and>
      opened (trace (snd (create healthy_host drv fresh_state))) = 0 \<and>
      acquire healthy_host drv fresh_state = None \<and>
      settled (fst (query plain_format no_catalog healthy_host drv ''SELECT 1'' [] fresh_state)) =
        None"
proof -
  have h: "dbTypeDescription no_catalog
       (js_or (read_entry (in_dbType generic_config)) (CUBEJS_DB_TYPE no_env)) = None \<and>
     read_entry (in_properties generic_config) = None \<and>
     truthy (url (merged_config no_catalog no_env generic_config)) \<and>
     truthy (drivername (merged_config no_catalog no_env generic_config))"
    by (simp add: merged_config_def generic_config_def no_env_def no_catalog_def spread_def
        truthy_def js_or_def dbTypeDescription_def read_entry_def)
  from create_fails_without_properties [where S = no_catalog and parseInt = "\<lambda>_. None"
      and env = no_env and cfg = generic_config and 'v = string] h
  obtain drv where d: "constructor no_catalog (\<lambda>_. None) no_env generic_config = Inr drv"
    and c: "\<And>h s. jdbcProps s = None \<Longrightarrow>
         fst (create h drv s) =
           Inl (case Java_addToClasspath h (trace s) of
                  Some e \<Rightarrow> e
                | None \<Rightarrow> Exn JsTypeError ''Cannot convert undefined or null to object'' None) \<and>
         jdbcProps (snd (create h drv s)) = None \<and>
         trace (snd (create h drv s)) = AddToClasspath # trace s"
    and a: "\<And>h s q vals. jdbcProps s = None \<and> idle s = [] \<and> borrowed s = [] \<Longrightarrow>
           acquire h drv s = None \<and>
           settled (fst (query plain_format no_catalog h drv q vals s)) = None"
    by blast
  have f: "jdbcProps fresh_state = None \<and> idle fresh_state = [] \<and> borrowed fresh_state = []"
    by (simp add: fresh_state_def)
  from c [of fresh_state healthy_host] f
  have c1: "fst (create healthy_host drv fresh_state) =
        Inl (Exn JsTypeError ''Cannot convert undefined or null to object'' None)"
    and j1: "jdbcProps (snd (create healthy_host drv fresh_state)) = None"
    and t1: "trace (snd (create healthy_host drv fresh_state)) = [AddToClasspath]"
    by (simp_all add: healthy_host_def fresh_state_def)
  from c [OF j1, of healthy_host]
  have c2: "fst (create healthy_host drv (snd (create healthy_host drv fresh_state))) =
        Inl (Exn JsTypeError ''Cannot convert undefined or null to object'' None)"
    by (simp add: healthy_host_def)
  from t1 have o: "opened (trace (snd (create healthy_host drv fresh_state))) = 0" by simp
  from d c1 c2 o a [OF f, of healthy_host "''SELECT 1''" "[]"] show ?thesis by blast
qed

end
